theory Spec2Isabelle
  imports Complex_Main "HOL-Library.Sublist"
begin

section \<open>Python values and exceptions\<close>

text \<open>
  A decoded JSON document is a Python value: \<open>None\<close>, a bool, an int, a float, a str,
  a list or a dict. Python's \<open>json\<close> module also decodes \<open>Infinity\<close> and \<open>NaN\<close>, so a
  float is a finite number or one of the three special values. A dict is kept as the
  list of its items in insertion order; only lookups, membership, emptiness and the key
  order are ever read from it.
\<close>

datatype pyfloat = Finite real | PosInf | NegInf | NaN

datatype json =
    JNull
  | JBool bool
  | JInt int
  | JFloat pyfloat
  | JStr string
  | JArr "json list"
  | JObj "(string \<times> json) list"

text \<open>
  The exceptions of the program. The first three are the classes of \<open>client.py\<close>; the
  others are the built-in errors its expressions can raise, the \<open>ClientResponseError\<close>
  of \<open>raise_for_status\<close> (status and message) and \<open>OtherError\<close> for any other
  exception the HTTP session raises (with the text \<open>str\<close> gives for it).
  An exception of the client carries its positional arguments: a value taken from a
  response body, a text (a literal or an f-string, kept as its pieces so that no number
  or exception has to be printed), or the exception it was built from.
\<close>

datatype exn =
    NSWFuelApiClientError "arg list"
  | NSWFuelApiClientAuthError "arg list"
  | NSWFuelApiClientConnectionError "arg list"
  | KeyError string
  | TypeError
  | ValueError
  | AttributeError
  | OverflowError
  | ClientResponseError int string
  | OtherError string
and arg =
    Val json
  | Str "piece list"
  | Exc exn
and piece =
    Lit string
  | Num int
  | Flt real
  | Of exn

fun bind :: "exn + 'a \<Rightarrow> ('a \<Rightarrow> exn + 'b) \<Rightarrow> exn + 'b" where
  "bind (Inl e) f = Inl e"
| "bind (Inr x) f = f x"

fun map_exn :: "('a \<Rightarrow> exn + 'b) \<Rightarrow> 'a list \<Rightarrow> exn + 'b list" where
  "map_exn f [] = Inr []"
| "map_exn f (x # xs) = bind (f x) (\<lambda>y. bind (map_exn f xs) (\<lambda>ys. Inr (y # ys)))"

text \<open>
  The two library conversions whose results depend on the text of a string are
  parameters of the model: \<open>int(s)\<close> for a str \<open>s\<close>, and
  \<open>datetime.strptime(s, fmt)\<close>; \<open>None\<close> stands for the \<open>ValueError\<close> either raises.
\<close>

datatype datetime = Datetime int int int int int int

record pylib =
  int_of_str :: "string \<Rightarrow> int option"
  strptime :: "string \<Rightarrow> string \<Rightarrow> datetime option"

fun truthy :: "json \<Rightarrow> bool" where
  "truthy JNull = False"
| "truthy (JBool b) = b"
| "truthy (JInt i) = (i \<noteq> 0)"
| "truthy (JFloat (Finite r)) = (r \<noteq> 0)"
| "truthy (JFloat f) = True"
| "truthy (JStr s) = (s \<noteq> [])"
| "truthy (JArr xs) = (xs \<noteq> [])"
| "truthy (JObj kvs) = (kvs \<noteq> [])"

text \<open>\<open>a or b\<close> on two values.\<close>

definition py_or :: "json \<Rightarrow> json \<Rightarrow> json" where
  "py_or a b = (if truthy a then a else b)"

text \<open>\<open>int(v)\<close>: a float is truncated towards zero.\<close>

fun py_int :: "'a pylib_scheme \<Rightarrow> json \<Rightarrow> exn + int" where
  "py_int L JNull = Inl TypeError"
| "py_int L (JBool b) = Inr (if b then 1 else 0)"
| "py_int L (JInt i) = Inr i"
| "py_int L (JFloat (Finite r)) = Inr (if 0 \<le> r then \<lfloor>r\<rfloor> else \<lceil>r\<rceil>)"
| "py_int L (JFloat NaN) = Inl ValueError"
| "py_int L (JFloat f) = Inl OverflowError"
| "py_int L (JStr s) = (case int_of_str L s of None \<Rightarrow> Inl ValueError | Some i \<Rightarrow> Inr i)"
| "py_int L (JArr xs) = Inl TypeError"
| "py_int L (JObj kvs) = Inl TypeError"

text \<open>\<open>data[key]\<close> with a str key: only a dict can answer.\<close>

fun getitem :: "json \<Rightarrow> string \<Rightarrow> exn + json" where
  "getitem (JObj kvs) k = (case map_of kvs k of None \<Rightarrow> Inl (KeyError k) | Some v \<Rightarrow> Inr v)"
| "getitem v k = Inl TypeError"

text \<open>\<open>data.get(key)\<close> and \<open>data.get(key, default)\<close>: a method of dicts only.\<close>

fun py_get_default :: "json \<Rightarrow> string \<Rightarrow> json \<Rightarrow> exn + json" where
  "py_get_default (JObj kvs) k d = Inr (case map_of kvs k of None \<Rightarrow> d | Some v \<Rightarrow> v)"
| "py_get_default v k d = Inl AttributeError"

definition py_get :: "json \<Rightarrow> string \<Rightarrow> exn + json" where
  "py_get data k = py_get_default data k JNull"

text \<open>\<open>key in data\<close> for a str key.\<close>

fun py_in :: "string \<Rightarrow> json \<Rightarrow> exn + bool" where
  "py_in k (JObj kvs) = Inr (k \<in> set (map fst kvs))"
| "py_in k (JArr xs) = Inr (JStr k \<in> set xs)"
| "py_in k (JStr s) = Inr (sublist k s)"
| "py_in k v = Inl TypeError"

text \<open>Iterating over a value, and \<open>len\<close>.\<close>

fun py_iter :: "json \<Rightarrow> exn + json list" where
  "py_iter (JArr xs) = Inr xs"
| "py_iter (JObj kvs) = Inr (map (\<lambda>kv. JStr (fst kv)) kvs)"
| "py_iter (JStr s) = Inr (map (\<lambda>c. JStr [c]) s)"
| "py_iter v = Inl TypeError"

fun py_len :: "json \<Rightarrow> exn + nat" where
  "py_len (JArr xs) = Inr (length xs)"
| "py_len (JObj kvs) = Inr (length kvs)"
| "py_len (JStr s) = Inr (length s)"
| "py_len v = Inl TypeError"

section \<open>dto.py\<close>

definition DEFAULT_STATE :: string where
  "DEFAULT_STATE = ''NSW''"

record Price =
  fuel_type :: json
  price :: json
  last_updated :: "datetime option"
  price_unit :: json
  station_code :: "int option"

text \<open>
  One \<open>with suppress(ValueError)\<close> block of \<open>Price.deserialize\<close>:
  \<open>datetime.strptime(data["lastupdated"], fmt)\<close>. The subscript can raise \<open>KeyError\<close> or
  \<open>TypeError\<close> and \<open>strptime\<close> raises \<open>TypeError\<close> on anything but a str; neither is
  suppressed. The suppressed \<open>ValueError\<close> leaves \<open>lastupdated\<close> at \<open>None\<close>.
\<close>

definition try_strptime :: "'a pylib_scheme \<Rightarrow> json \<Rightarrow> string \<Rightarrow> exn + datetime option" where
  "try_strptime L data fmt =
     bind (getitem data ''lastupdated'')
       (\<lambda>v. case v of JStr s \<Rightarrow> Inr (strptime L s fmt) | _ \<Rightarrow> Inl TypeError)"

text \<open>\<open>int(data["stationcode"]) if "stationcode" in data else None\<close>\<close>

definition Price_station_code :: "'a pylib_scheme \<Rightarrow> json \<Rightarrow> exn + int option" where
  "Price_station_code L data =
     bind (py_in ''stationcode'' data)
       (\<lambda>present. if present
          then bind (getitem data ''stationcode'') (\<lambda>v. bind (py_int L v) (\<lambda>i. Inr (Some i)))
          else Inr None)"

definition Price_deserialize :: "'a pylib_scheme \<Rightarrow> json \<Rightarrow> exn + Price" where
  "Price_deserialize L data =
     bind (try_strptime L data ''%d/%m/%Y %H:%M:%S'')
       (\<lambda>first. bind (case first of
                       None \<Rightarrow> try_strptime L data ''%Y-%m-%d %H:%M:%S''
                     | Some d \<Rightarrow> Inr (Some d))
       (\<lambda>lastupdated. bind (Price_station_code L data)
       (\<lambda>code. bind (getitem data ''fueltype'')
       (\<lambda>ft. bind (getitem data ''price'')
       (\<lambda>pr. bind (py_get data ''priceunit'')
       (\<lambda>unit. Inr \<lparr>fuel_type = ft, price = pr, last_updated = lastupdated,
                     price_unit = unit, station_code = code\<rparr>))))))"

record Station =
  ident :: json
  brand :: json
  code :: int
  name :: json
  address :: json
  latitude :: json
  longitude :: json
  au_state :: json

definition Station_deserialize :: "'a pylib_scheme \<Rightarrow> json \<Rightarrow> exn + Station" where
  "Station_deserialize L data =
     bind (py_get data ''stationid'')
       (\<lambda>i. bind (getitem data ''brand'')
       (\<lambda>b. bind (bind (getitem data ''code'') (py_int L))
       (\<lambda>c. bind (getitem data ''name'')
       (\<lambda>n. bind (getitem data ''address'')
       (\<lambda>a. bind (bind (getitem data ''location'') (\<lambda>l. getitem l ''latitude''))
       (\<lambda>lat. bind (bind (getitem data ''location'') (\<lambda>l. getitem l ''longitude''))
       (\<lambda>lon. bind (py_get data ''state'')
       (\<lambda>s. Inr \<lparr>ident = i, brand = b, code = c, name = n, address = a, latitude = lat,
                  longitude = lon, au_state = py_or s (JStr DEFAULT_STATE)\<rparr>))))))))"

datatype StationPrice = StationPrice Price Station

datatype GetFuelPricesResponse = GetFuelPricesResponse "Station list" "Price list"

definition GetFuelPricesResponse_deserialize ::
  "'a pylib_scheme \<Rightarrow> json \<Rightarrow> exn + GetFuelPricesResponse" where
  "GetFuelPricesResponse_deserialize L data =
     bind (bind (bind (getitem data ''stations'') py_iter) (map_exn (Station_deserialize L)))
       (\<lambda>stations. bind (bind (bind (getitem data ''prices'') py_iter) (map_exn (Price_deserialize L)))
       (\<lambda>prices. Inr (GetFuelPricesResponse stations prices)))"

text \<open>The four reference records are plain pairs of values read by key.\<close>

datatype FuelType = FuelType json json

datatype TrendPeriod = TrendPeriod json json

datatype SortField = SortField json json

definition FuelType_deserialize :: "json \<Rightarrow> exn + FuelType" where
  "FuelType_deserialize data =
     bind (getitem data ''code'') (\<lambda>c. bind (getitem data ''name'') (\<lambda>n. Inr (FuelType c n)))"

definition TrendPeriod_deserialize :: "json \<Rightarrow> exn + TrendPeriod" where
  "TrendPeriod_deserialize data =
     bind (getitem data ''period'')
       (\<lambda>p. bind (getitem data ''description'') (\<lambda>d. Inr (TrendPeriod p d)))"

definition SortField_deserialize :: "json \<Rightarrow> exn + SortField" where
  "SortField_deserialize data =
     bind (getitem data ''code'') (\<lambda>c. bind (getitem data ''name'') (\<lambda>n. Inr (SortField c n)))"

datatype GetReferenceDataResponse =
  GetReferenceDataResponse "Station list" "json list" "FuelType list" "TrendPeriod list"
    "SortField list"

text \<open>\<open>data[key]["items"]\<close>, iterated.\<close>

definition items_of :: "json \<Rightarrow> string \<Rightarrow> exn + json list" where
  "items_of data k = bind (bind (getitem data k) (\<lambda>d. getitem d ''items'')) py_iter"

definition GetReferenceDataResponse_deserialize ::
  "'a pylib_scheme \<Rightarrow> json \<Rightarrow> exn + GetReferenceDataResponse" where
  "GetReferenceDataResponse_deserialize L data =
     bind (bind (items_of data ''stations'') (map_exn (Station_deserialize L)))
       (\<lambda>stations. bind (bind (items_of data ''brands'') (map_exn (\<lambda>x. getitem x ''name'')))
       (\<lambda>brands. bind (bind (items_of data ''fueltypes'') (map_exn FuelType_deserialize))
       (\<lambda>fuel_types. bind (bind (items_of data ''trendperiods'') (map_exn TrendPeriod_deserialize))
       (\<lambda>trend_periods. bind (bind (items_of data ''sortfields'') (map_exn SortField_deserialize))
       (\<lambda>sort_fields.
          Inr (GetReferenceDataResponse stations brands fuel_types trend_periods sort_fields))))))"

section \<open>client.py\<close>

definition HTTP_CLIENT_SERVER_ERROR :: int where
  "HTTP_CLIENT_SERVER_ERROR = 400"

definition HTTP_INTERNAL_SERVER_ERROR :: int where
  "HTTP_INTERNAL_SERVER_ERROR = 500"

definition HTTP_TIMEOUT_ERROR :: int where
  "HTTP_TIMEOUT_ERROR = 408"

definition HTTP_UNAUTHORIZED :: int where
  "HTTP_UNAUTHORIZED = 401"

text \<open>
  What the client does to the outside world is recorded in a trace, oldest event first:
  a reading of \<open>time.time()\<close>, a GET on the token endpoint, a request on a data endpoint
  (with the bearer token it carries) and \<open>asyncio.sleep\<close> (with its seconds). The state
  of a client is its token slot (\<open>None\<close> is \<open>JNull\<close>), the stored expiry and the trace.
\<close>

datatype event = Clock_read | Token_request | Api_request json | Sleep real

record client =
  token :: json
  token_expiry :: real
  trace :: "event list"

text \<open>
  The outside world answers. The k-th reading of the clock, the k-th token request and
  the k-th data request (each counted from 0 over the whole trace) get the k-th entry
  of a script, so a run is a function of the scripts and the starting state. A script
  does not depend on what a request carries: whatever rule a server follows, the
  answers it gives in one run form such a script.

  The token endpoint either makes \<open>session.get\<close>, \<open>raise_for_status\<close> or the reading of
  the body raise an exception, or hands over a body that decodes to a value (\<open>Some\<close>)
  or is not JSON (\<open>None\<close>: \<open>json()\<close>, \<open>json.loads\<close> raise a \<open>ValueError\<close>). Both branches
  on the content type of \<open>_async_get_token\<close> decode the same body and differ in a log
  line only. A data endpoint either makes the request raise, or answers with a status,
  a reason phrase and a body, decoded if it is JSON, and as text.
\<close>

datatype token_reply = Token_raises exn | Token_body "json option"

record response =
  status :: int
  reason :: string
  json_body :: "json option"
  text_body :: string

datatype api_reply = Api_raises exn | Api_response response

record env = pylib +
  clock :: "nat \<Rightarrow> real"
  token_endpoint :: "nat \<Rightarrow> token_reply"
  api_endpoint :: "nat \<Rightarrow> api_reply"

definition clock_reads :: "client \<Rightarrow> nat" where
  "clock_reads c = length (filter (\<lambda>e. e = Clock_read) (trace c))"

definition token_requests :: "client \<Rightarrow> nat" where
  "token_requests c = length (filter (\<lambda>e. e = Token_request) (trace c))"

fun is_api_request :: "event \<Rightarrow> bool" where
  "is_api_request (Api_request t) = True"
| "is_api_request e = False"

definition api_requests :: "client \<Rightarrow> nat" where
  "api_requests c = length (filter is_api_request (trace c))"

definition emit :: "event \<Rightarrow> client \<Rightarrow> client" where
  "emit e c = c\<lparr>trace := trace c @ [e]\<rparr>"

text \<open>\<open>isinstance(err, NSWFuelApiClientError)\<close>: the base class and its two subclasses.\<close>

fun is_client_error :: "exn \<Rightarrow> bool" where
  "is_client_error (NSWFuelApiClientError a) = True"
| "is_client_error (NSWFuelApiClientAuthError a) = True"
| "is_client_error (NSWFuelApiClientConnectionError a) = True"
| "is_client_error e = False"

definition text_arg :: "string \<Rightarrow> arg list" where
  "text_arg s = [Str [Lit s]]"

text \<open>\<open>details or msg\<close> as the argument of an exception: \<open>details\<close> is \<open>None\<close> or a value.\<close>

definition details_or :: "json \<Rightarrow> piece list \<Rightarrow> arg list" where
  "details_or details msg = (if truthy details then [Val details] else [Str msg])"

definition extract_error_details :: "json \<Rightarrow> exn + json" where
  "extract_error_details data =
     (case data of
        JObj kvs \<Rightarrow>
          (case map_of kvs ''errorDetails'' of
             Some (JArr (first # others)) \<Rightarrow>
               bind (py_get first ''description'')
                 (\<lambda>d. if truthy d then Inr d else py_get first ''message'')
           | Some (JObj ed) \<Rightarrow>
               bind (py_get (JObj ed) ''description'')
                 (\<lambda>d. if truthy d then Inr d else py_get (JObj ed) ''message'')
           | _ \<Rightarrow> Inr JNull)
      | _ \<Rightarrow> Inr JNull)"

subsection \<open>\<open>_async_get_token\<close>\<close>

text \<open>The body of the \<open>try\<close>, and its two \<open>except\<close> clauses.\<close>

definition token_exchange :: "token_reply \<Rightarrow> exn + json" where
  "token_exchange reply =
     (case reply of
        Token_raises err \<Rightarrow> Inl err
      | Token_body None \<Rightarrow>
          Inl (NSWFuelApiClientError (text_arg ''Failed to parse token response JSON''))
      | Token_body (Some result) \<Rightarrow> Inr result)"

definition token_handler :: "exn \<Rightarrow> exn" where
  "token_handler err =
     (case err of
        ClientResponseError st message \<Rightarrow>
          if st = HTTP_UNAUTHORIZED
          then NSWFuelApiClientAuthError (text_arg ''Invalid NSW Fuel Check API credentials'')
          else NSWFuelApiClientError
                 [Str [Lit ''Token request failed with status '', Num st, Lit '': '', Lit message]]
      | _ \<Rightarrow> NSWFuelApiClientError [Str [Lit ''Unexpected error fetching token: '', Of err]])"

definition async_get_token :: "env \<Rightarrow> client \<Rightarrow> (exn + json) \<times> client" where
  "async_get_token E c =
     (let now = clock E (clock_reads c);
          c1 = emit Clock_read c
      in if \<not> truthy (token c1) \<or> now > token_expiry c1 - 60 then
           (let reply = token_endpoint E (token_requests c1);
                c2 = emit Token_request c1
            in case token_exchange reply of
                 Inl err \<Rightarrow> (Inl (token_handler err), c2)
               | Inr result \<Rightarrow>
                   (case py_get result ''access_token'' of
                      Inl err \<Rightarrow> (Inl err, c2)
                    | Inr access_token \<Rightarrow>
                        if \<not> truthy access_token then
                          (Inl (NSWFuelApiClientError
                                  (text_arg ''No access token in NSW Fuel Check token response'')), c2)
                        else
                          (case bind (py_get_default result ''expires_in'' (JInt 3600)) (py_int E) of
                             Inl err \<Rightarrow> (Inl err, c2)
                           | Inr expires_in \<Rightarrow>
                               (let c3 = c2\<lparr>token := access_token,
                                           token_expiry := now + real_of_int expires_in\<rparr>
                                in (Inr (token c3), c3)))))
         else (Inr (token c1), c1))"

subsection \<open>\<open>_async_request\<close>\<close>

text \<open>\<open>_parse_response\<close>: the decoded body, or the text when the body is not JSON.\<close>

definition parse_response :: "response \<Rightarrow> json" where
  "parse_response r = (case json_body r of Some v \<Rightarrow> v | None \<Rightarrow> JStr (text_body r))"

definition handle_http_error ::
  "int \<Rightarrow> json \<Rightarrow> string \<Rightarrow> nat \<Rightarrow> nat \<Rightarrow> client \<Rightarrow> (exn + bool) \<times> client" where
  "handle_http_error st data rsn attempt max_retries c =
     (case extract_error_details data of
        Inl err \<Rightarrow> (Inl err, c)
      | Inr details \<Rightarrow>
          if st = HTTP_UNAUTHORIZED then
            (if attempt < max_retries then (Inr True, c\<lparr>token := JNull\<rparr>)
             else (Inl (NSWFuelApiClientAuthError
                          (details_or details [Lit ''Authentication failed during request.''])), c))
          else if st = HTTP_TIMEOUT_ERROR then
            (if attempt < max_retries then (Inr True, c)
             else (Inl (NSWFuelApiClientConnectionError
                          (details_or details [Lit ''Request timed out after retry.''])), c))
          else if st \<ge> HTTP_INTERNAL_SERVER_ERROR then
            (Inl (NSWFuelApiClientConnectionError
                    (details_or details [Lit ''Server error '', Num st, Lit '': '', Lit rsn])), c)
          else if st \<ge> HTTP_CLIENT_SERVER_ERROR then
            (Inl (NSWFuelApiClientError
                    (details_or details [Lit ''HTTP error '', Num st, Lit '': '', Lit rsn])), c)
          else (Inr False, c))"

text \<open>
  The two \<open>except\<close> clauses around the request: an exception of the client is raised
  again as it is, any other becomes \<open>NSWFuelApiClientError(str(err))\<close>.
\<close>

definition request_handler :: "exn \<Rightarrow> exn" where
  "request_handler err =
     (if is_client_error err then err else NSWFuelApiClientError [Str [Of err]])"

text \<open>
  The \<open>while attempt <= max_retries\<close> loop. \<open>Some\<close> is what an iteration returns or
  raises; \<open>None\<close> is the loop running out, with the statements after it still to come.
  The token is fetched before the \<open>try\<close>, so what \<open>_async_get_token\<close> raises passes
  through no \<open>except\<close> clause.
\<close>

function request_loop ::
  "env \<Rightarrow> nat \<Rightarrow> nat \<Rightarrow> client \<Rightarrow> (exn + json) option \<times> client" where
  "request_loop E max_retries attempt c =
     (if attempt \<le> max_retries then
        (case async_get_token E c of
           (Inl err, c1) \<Rightarrow> (Some (Inl err), c1)
         | (Inr tok, c1) \<Rightarrow>
             if \<not> truthy tok then
               (Some (Inl (NSWFuelApiClientError
                             (text_arg ''No access token available for NSW Fuel API request''))), c1)
             else
               (let reply = api_endpoint E (api_requests c1);
                    c2 = emit (Api_request tok) c1
                in case reply of
                     Api_raises err \<Rightarrow> (Some (Inl (request_handler err)), c2)
                   | Api_response r \<Rightarrow>
                       (let data = parse_response r
                        in case handle_http_error (status r) data (reason r) attempt max_retries c2 of
                             (Inl err, c3) \<Rightarrow> (Some (Inl (request_handler err)), c3)
                           | (Inr should_retry, c3) \<Rightarrow>
                               if should_retry
                               then request_loop E max_retries (attempt + 1) (emit (Sleep 0.5) c3)
                               else (Some (Inr data), c3))))
      else (None, c))"
  by pat_completeness auto
termination
  by (relation "measure (\<lambda>(E, max_retries, attempt, c). max_retries + 1 - attempt)") auto

definition async_request :: "env \<Rightarrow> client \<Rightarrow> (exn + json) \<times> client" where
  "async_request E c =
     (case request_loop E 1 0 c of
        (Some outcome, c') \<Rightarrow> (outcome, c')
      | (None, c') \<Rightarrow>
          (Inl (NSWFuelApiClientError (text_arg ''Failed to perform http request'')), c'))"

subsection \<open>The four operations\<close>

text \<open>
  The arguments of an operation that only shape the outgoing request (the state, the
  radius, the fuel type, the brands, the sort order, the headers) have no place in the
  model: the reply is whatever the script says. The station code and the coordinates
  are kept for the messages they appear in. Debug logging is taken to be off, as it is
  unless the application configures it.

  Each operation wraps the call of \<open>_async_request\<close>, and nothing after it, in
  \<open>try\<close>/\<open>except\<close>.
\<close>

definition get_fuel_prices :: "env \<Rightarrow> client \<Rightarrow> (exn + GetFuelPricesResponse) \<times> client" where
  "get_fuel_prices E c =
     (case async_request E c of
        (Inl err, c') \<Rightarrow>
          (Inl (if is_client_error err then err
                else NSWFuelApiClientError
                       [Str [Lit ''Unexpected error fetching fuel prices:''], Exc err]), c')
      | (Inr resp, c') \<Rightarrow>
          (if \<not> truthy resp then
             Inl (NSWFuelApiClientError (text_arg ''No data returned from NSW Fuel API''))
           else
             bind (bind (py_in ''prices'' resp)
                     (\<lambda>has_prices. if \<not> has_prices then Inr True
                                    else bind (py_in ''stations'' resp) (\<lambda>has. Inr (\<not> has))))
               (\<lambda>missing.
                  if missing then
                    Inl (NSWFuelApiClientError
                           (text_arg ''Malformed response: missing required fields''))
                  else GetFuelPricesResponse_deserialize E resp), c'))"

definition get_fuel_prices_for_station ::
  "env \<Rightarrow> string \<Rightarrow> client \<Rightarrow> (exn + Price list) \<times> client" where
  "get_fuel_prices_for_station E station_code_str c =
     (case async_request E c of
        (Inl err, c') \<Rightarrow>
          (Inl (if is_client_error err then err
                else NSWFuelApiClientError
                       [Str [Lit ''Unexpected failure getting station prices for '',
                             Lit station_code_str, Lit '': '', Of err]]), c')
      | (Inr resp, c') \<Rightarrow>
          (bind (if \<not> truthy resp then Inr True
                 else bind (py_in ''prices'' resp) (\<lambda>has. Inr (\<not> has)))
             (\<lambda>malformed.
                if malformed then
                  Inl (NSWFuelApiClientError
                         [Str [Lit ''Malformed or empty response for station '', Lit station_code_str]])
                else
                  bind (py_get resp ''prices'')
                    (\<lambda>prices_data.
                       if \<not> truthy prices_data then
                         Inl (NSWFuelApiClientError
                                [Str [Lit ''No price data found for station '', Lit station_code_str]])
                       else
                         bind (py_len prices_data)
                           (\<lambda>n. bind (py_iter prices_data) (map_exn (Price_deserialize E))))), c'))"

text \<open>The dict comprehension over the stations: a later station of the same code wins.\<close>

fun build_stations ::
  "'a pylib_scheme \<Rightarrow> json list \<Rightarrow> (int \<rightharpoonup> Station) \<Rightarrow> exn + (int \<rightharpoonup> Station)" where
  "build_stations L [] stations = Inr stations"
| "build_stations L (s # rest) stations =
     bind (bind (getitem s ''code'') (py_int L))
       (\<lambda>k. bind (Station_deserialize L s)
       (\<lambda>st. build_stations L rest (stations(k \<mapsto> st))))"

text \<open>\<open>except (KeyError, TypeError, ValueError)\<close>\<close>

fun is_skipped :: "exn \<Rightarrow> bool" where
  "is_skipped (KeyError k) = True"
| "is_skipped TypeError = True"
| "is_skipped ValueError = True"
| "is_skipped e = False"

text \<open>The loop over the price entries, appending to \<open>station_prices\<close>.\<close>

fun join_prices ::
  "'a pylib_scheme \<Rightarrow> (int \<rightharpoonup> Station) \<Rightarrow> json list \<Rightarrow> StationPrice list \<Rightarrow>
     exn + StationPrice list" where
  "join_prices L stations [] station_prices = Inr station_prices"
| "join_prices L stations (serialized_price # rest) station_prices =
     (case Price_deserialize L serialized_price of
        Inl err \<Rightarrow>
          if is_skipped err then join_prices L stations rest station_prices else Inl err
      | Inr p \<Rightarrow>
          (case station_code p of
             None \<Rightarrow> join_prices L stations rest station_prices
           | Some k \<Rightarrow>
               (case stations k of
                  None \<Rightarrow> join_prices L stations rest station_prices
                | Some st \<Rightarrow>
                    join_prices L stations rest (station_prices @ [StationPrice p st]))))"

definition location_text :: "string \<Rightarrow> real \<Rightarrow> real \<Rightarrow> piece list" where
  "location_text s lat lon = [Lit s, Lit ''('', Flt lat, Lit '', '', Flt lon, Lit '')'']"

definition get_fuel_prices_within_radius ::
  "env \<Rightarrow> real \<Rightarrow> real \<Rightarrow> client \<Rightarrow> (exn + StationPrice list) \<times> client" where
  "get_fuel_prices_within_radius E lat lon c =
     (case async_request E c of
        (Inl err, c') \<Rightarrow>
          (Inl (if is_client_error err then err
                else NSWFuelApiClientError
                       [Str (location_text ''Unexpected error fetching nearby prices for '' lat lon
                             @ [Lit '': '', Of err])]), c')
      | (Inr resp, c') \<Rightarrow>
          (bind (if \<not> truthy resp then Inr True
                 else bind (py_in ''stations'' resp)
                        (\<lambda>has_stations. if \<not> has_stations then Inr True
                                         else bind (py_in ''prices'' resp) (\<lambda>has. Inr (\<not> has))))
             (\<lambda>malformed.
                if malformed then
                  Inl (NSWFuelApiClientError
                         [Str (location_text ''Malformed or empty response for location '' lat lon)])
                else
                  bind (py_get resp ''stations'')
                    (\<lambda>stations_data. bind (py_get resp ''prices'')
                    (\<lambda>prices_data.
                       if \<not> truthy stations_data \<or> \<not> truthy prices_data then
                         Inl (NSWFuelApiClientError
                                [Str (location_text ''No stations/prices found for location '' lat lon)])
                       else
                         bind (bind (py_iter stations_data)
                                 (\<lambda>ss. build_stations E ss Map.empty))
                           (\<lambda>stations. bind (py_iter prices_data)
                           (\<lambda>ps. join_prices E stations ps []))))), c'))"

definition get_reference_data ::
  "env \<Rightarrow> client \<Rightarrow> (exn + GetReferenceDataResponse) \<times> client" where
  "get_reference_data E c =
     (case async_request E c of
        (Inl err, c') \<Rightarrow>
          (Inl (if is_client_error err then err
                else NSWFuelApiClientError
                       [Str [Lit ''Unexpected failure fetching reference data: '', Of err]]), c')
      | (Inr resp, c') \<Rightarrow>
          (if \<not> truthy resp then
             Inl (NSWFuelApiClientError (text_arg ''Empty response from reference data endpoint''))
           else GetReferenceDataResponse_deserialize E resp, c'))"

section \<open>The radius join, as the specification words it\<close>


definition join_spec ::
  "'a pylib_scheme \<Rightarrow> (int \<rightharpoonup> Station) \<Rightarrow> json list \<Rightarrow> StationPrice list" where
  "join_spec L stations ps =
     List.map_filter
       (\<lambda>entry. case Price_deserialize L entry of
                  Inl err \<Rightarrow> None
                | Inr p \<Rightarrow>
                    (case station_code p of
                       None \<Rightarrow> None
                     | Some k \<Rightarrow> map_option (StationPrice p) (stations k)))
       ps"

section \<open>Concrete inputs\<close>

text \<open>
  To run the definitions, an instance of the two library conversions that knows the
  plain forms only: decimal digits with an optional minus sign, and the two date
  layouts with every field zero-padded to its full width. The theorems below hold for
  every instance; this one stands in where a concrete run needs one.
\<close>

fun digits_val :: "string \<Rightarrow> nat \<Rightarrow> nat option" where
  "digits_val [] acc = Some acc"
| "digits_val (c # cs) acc =
     (let n = (of_char c :: nat) in
      if 48 \<le> n \<and> n \<le> 57 then digits_val cs (10 * acc + (n - 48)) else None)"

definition field :: "string \<Rightarrow> nat \<Rightarrow> nat \<Rightarrow> nat option" where
  "field s pos len = digits_val (take len (drop pos s)) 0"

definition in_range :: "nat \<Rightarrow> nat \<Rightarrow> nat \<Rightarrow> nat \<Rightarrow> nat \<Rightarrow> nat \<Rightarrow> datetime option" where
  "in_range y m d H M S =
     (if 1 \<le> y \<and> 1 \<le> m \<and> m \<le> 12 \<and> 1 \<le> d \<and> d \<le> 31 \<and> H \<le> 23 \<and> M \<le> 59 \<and> S \<le> 59
      then Some (Datetime (int y) (int m) (int d) (int H) (int M) (int S)) else None)"

definition sample_strptime :: "string \<Rightarrow> string \<Rightarrow> datetime option" where
  "sample_strptime s fmt =
     (if length s \<noteq> 19 then None
      else if fmt = ''%d/%m/%Y %H:%M:%S'' \<and> map (\<lambda>i. s ! i) [2, 5, 10, 13, 16] = ''// ::'' then
        (case (field s 6 4, field s 3 2, field s 0 2, field s 11 2, field s 14 2, field s 17 2) of
           (Some y, Some m, Some d, Some H, Some M, Some S) \<Rightarrow> in_range y m d H M S
         | _ \<Rightarrow> None)
      else if fmt = ''%Y-%m-%d %H:%M:%S'' \<and> map (\<lambda>i. s ! i) [4, 7, 10, 13, 16] = ''-- ::'' then
        (case (field s 0 4, field s 5 2, field s 8 2, field s 11 2, field s 14 2, field s 17 2) of
           (Some y, Some m, Some d, Some H, Some M, Some S) \<Rightarrow> in_range y m d H M S
         | _ \<Rightarrow> None)
      else None)"

definition sample_int_of_str :: "string \<Rightarrow> int option" where
  "sample_int_of_str s =
     (case s of
        [] \<Rightarrow> None
      | c # cs \<Rightarrow>
          if c = CHR ''-'' \<and> cs \<noteq> [] then map_option (\<lambda>n. - int n) (digits_val cs 0)
          else map_option int (digits_val s 0))"

definition sample_lib :: pylib where
  "sample_lib = \<lparr>int_of_str = sample_int_of_str, strptime = sample_strptime\<rparr>"

text \<open>
  A script from a list of replies, as a test's mock gives them: once the list is used
  up, every further request is refused.
\<close>

definition script :: "'a list \<Rightarrow> 'a \<Rightarrow> nat \<Rightarrow> 'a" where
  "script replies refused k = (if k < length replies then replies ! k else refused)"

definition sample_env :: "real \<Rightarrow> token_reply list \<Rightarrow> api_reply list \<Rightarrow> env" where
  "sample_env now token_replies api_replies =
     \<lparr>int_of_str = sample_int_of_str, strptime = sample_strptime,
      clock = (\<lambda>k. now),
      token_endpoint = script token_replies (Token_raises (OtherError ''Connection refused'')),
      api_endpoint = script api_replies (Api_raises (OtherError ''Connection refused''))\<rparr>"

text \<open>The client as \<open>__init__\<close> leaves it, and the token reply of the tests' fixture.\<close>

definition new_client :: client where
  "new_client = \<lparr>token = JNull, token_expiry = 0, trace = []\<rparr>"

definition token_ok :: token_reply where
  "token_ok = Token_body (Some (JObj [(''access_token'', JStr ''testtoken''),
                                      (''expires_in'', JInt 3600)]))"

definition http :: "int \<Rightarrow> string \<Rightarrow> json \<Rightarrow> api_reply" where
  "http st rsn body =
     Api_response \<lparr>status = st, reason = rsn, json_body = Some body, text_body = []\<rparr>"

text \<open>A client holding a token with an hour to live at time 1000, and one whose
  token is exactly 60 seconds from expiry then.\<close>

definition held_client :: client where
  "held_client = \<lparr>token = JStr ''testtoken'', token_expiry = 4600, trace = []\<rparr>"

definition boundary_client :: client where
  "boundary_client = \<lparr>token = JStr ''testtoken'', token_expiry = 1060, trace = []\<rparr>"



definition after_token :: client where
  "after_token = \<lparr>token = JStr ''testtoken'', token_expiry = 4600,
                   trace = [Clock_read, Token_request]\<rparr>"

text \<open>
  The payload of the radius test: a station as sent and as deserialized, a price as
  sent and as deserialized, and the lists, with two entries more among the prices: one
  without \<open>lastupdated\<close>, and one for a station that is not in the list.
\<close>

definition station_items :: "int \<Rightarrow> string \<Rightarrow> (string \<times> json) list" where
  "station_items k n =
     [(''stationid'', JStr ''SAAAAAA''), (''brandid'', JStr ''BAAAAAA''),
      (''brand'', JStr ''Cool Fuel Brand''), (''code'', JInt k), (''name'', JStr n),
      (''address'', JStr ''123 Fake Street''),
      (''location'', JObj [(''latitude'', JFloat (Finite (- 33987 / 1000))),
                           (''longitude'', JFloat (Finite (151334 / 1000)))])]"

definition station_json :: "int \<Rightarrow> string \<Rightarrow> json" where
  "station_json k n = JObj (station_items k n)"

definition station_of :: "int \<Rightarrow> string \<Rightarrow> Station" where
  "station_of k n =
     \<lparr>ident = JStr ''SAAAAAA'', brand = JStr ''Cool Fuel Brand'', code = k, name = JStr n,
      address = JStr ''123 Fake Street'', latitude = JFloat (Finite (- 33987 / 1000)),
      longitude = JFloat (Finite (151334 / 1000)), au_state = JStr ''NSW''\<rparr>"

definition price_json :: "int \<Rightarrow> real \<Rightarrow> json" where
  "price_json k p =
     JObj [(''stationcode'', JInt k), (''fueltype'', JStr ''P95''), (''price'', JFloat (Finite p)),
           (''priceunit'', JStr ''litre''), (''description'', JNull),
           (''lastupdated'', JStr ''2018-06-02 00:46:31'')]"

definition price_of :: "int \<Rightarrow> real \<Rightarrow> Price" where
  "price_of k p =
     \<lparr>fuel_type = JStr ''P95'', price = JFloat (Finite p),
      last_updated = Some (Datetime 2018 6 2 0 46 31), price_unit = JStr ''litre'',
      station_code = Some k\<rparr>"

definition radius_stations :: "json list" where
  "radius_stations =
     [station_json 678 ''Cool'', station_json 679 ''Fake'', station_json 880 ''Fake2'']"

definition radius_prices :: "json list" where
  "radius_prices =
     [price_json 678 (1509 / 10), price_json 678 (1309 / 10), JObj [(''stationcode'', JInt 679)],
      price_json 880 (1559 / 10), price_json 999 (1409 / 10)]"

definition radius_env :: env where
  "radius_env =
     sample_env 1000 [token_ok]
       [http 200 ''OK''
          (JObj [(''stations'', JArr radius_stations), (''prices'', JArr radius_prices)])]"

section \<open>Properties\<close>

declare request_loop.simps [simp del]

lemmas sample_defs =
  sample_env_def sample_lib_def script_def new_client_def token_ok_def http_def
  sample_strptime_def sample_int_of_str_def field_def in_range_def

lemmas run_defs =
  async_get_token_def Let_def sample_env_def script_def token_ok_def new_client_def http_def
  emit_def clock_reads_def token_requests_def api_requests_def token_exchange_def
  token_handler_def py_get_def handle_http_error_def extract_error_details_def
  parse_response_def request_handler_def details_or_def text_arg_def
  HTTP_UNAUTHORIZED_def HTTP_TIMEOUT_ERROR_def HTTP_INTERNAL_SERVER_ERROR_def
  HTTP_CLIENT_SERVER_ERROR_def


lemma token_requests_emit [simp]:
  "token_requests (emit e c) = token_requests c + (if e = Token_request then 1 else 0)"
  by (simp add: token_requests_def emit_def)

lemma clock_reads_emit [simp]:
  "clock_reads (emit e c) = clock_reads c + (if e = Clock_read then 1 else 0)"
  by (simp add: clock_reads_def emit_def)

lemma api_requests_emit [simp]:
  "api_requests (emit e c) = api_requests c + (if is_api_request e then 1 else 0)"
  by (simp add: api_requests_def emit_def)

lemma emit_fields [simp]:
  "token (emit e c) = token c"
  "token_expiry (emit e c) = token_expiry c"
  "trace (emit e c) = trace c @ [e]"
  by (simp_all add: emit_def)

lemma counts_update [simp]:
  "token_requests (c\<lparr>token := t\<rparr>) = token_requests c"
  "token_requests (c\<lparr>token_expiry := x\<rparr>) = token_requests c"
  "clock_reads (c\<lparr>token := t\<rparr>) = clock_reads c"
  "clock_reads (c\<lparr>token_expiry := x\<rparr>) = clock_reads c"
  "api_requests (c\<lparr>token := t\<rparr>) = api_requests c"
  "api_requests (c\<lparr>token_expiry := x\<rparr>) = api_requests c"
  by (simp_all add: token_requests_def clock_reads_def api_requests_def)

subsection \<open>Facts about the token manager and the retry loop\<close>



lemma async_get_token_api_requests [simp]:
  "api_requests (snd (async_get_token E c)) = api_requests c"
  by (simp add: async_get_token_def Let_def split: sum.splits)


lemma handle_http_error_retry:
  "handle_http_error st data rsn a m c = (Inr True, c') \<Longrightarrow> a < m"
  by (auto simp add: handle_http_error_def split: sum.splits if_splits)

lemma handle_http_error_is_client_error:
  "handle_http_error st data rsn a m c = (Inl err, c') \<Longrightarrow>
     is_client_error err \<or> extract_error_details data = Inl err"
  by (auto simp add: handle_http_error_def split: sum.splits if_splits)

lemma py_get_raises: "py_get v k = Inl err \<Longrightarrow> err = AttributeError"
  by (cases v) (simp_all add: py_get_def)

lemma description_or_message_raises:
  "bind (py_get v ''description'') (\<lambda>d. if truthy d then Inr d else py_get v ''message'') = Inl err
     \<Longrightarrow> err = AttributeError"
  by (cases v) (auto simp add: py_get_def split: if_splits)

lemma extract_error_details_raises:
  "extract_error_details data = Inl err \<Longrightarrow> err = AttributeError"
  unfolding extract_error_details_def
  by (auto split: json.splits option.splits list.splits dest: description_or_message_raises)

lemma extract_error_details_accepts:
  "(\<exists>d. extract_error_details data = Inr d) \<longleftrightarrow>
     \<not> (\<exists>kvs first others. data = JObj kvs
           \<and> map_of kvs ''errorDetails'' = Some (JArr (first # others))
           \<and> (\<forall>ed. first \<noteq> JObj ed))"
proof -
  have other: "bind (py_get v ''description'')
                 (\<lambda>d. if truthy d then Inr d else py_get v ''message'') = Inl AttributeError"
    if "\<forall>ed. v \<noteq> JObj ed" for v
    using that by (cases v) (simp_all add: py_get_def)
  show ?thesis
  proof (cases data)
    case (JObj kvs)
    show ?thesis
    proof (cases "map_of kvs ''errorDetails''")
      case None
      with JObj show ?thesis by (simp add: extract_error_details_def)
    next
      case (Some ed)
      show ?thesis
      proof (cases ed)
        case (JArr xs)
        show ?thesis
        proof (cases xs)
          case Nil
          with JObj Some JArr show ?thesis by (simp add: extract_error_details_def)
        next
          case (Cons first others)
          show ?thesis
          proof (cases "\<exists>e. first = JObj e")
            case True
            then obtain e where "first = JObj e" by blast
            with JObj Some JArr Cons show ?thesis
              by (auto simp add: extract_error_details_def py_get_def)
          next
            case False
            with JObj Some JArr Cons other [of first] show ?thesis
              by (simp add: extract_error_details_def)
          qed
        qed
      qed (use JObj Some in \<open>simp_all add: extract_error_details_def py_get_def\<close>)
    qed
  qed (simp_all add: extract_error_details_def)
qed

lemma request_loop_exit: "m < a \<Longrightarrow> request_loop E m a c = (None, c)"
  by (subst request_loop.simps) simp

lemma request_loop_returns_or_raises:
  "a \<le> m \<Longrightarrow> \<exists>outcome. fst (request_loop E m a c) = Some outcome"
proof (induction "m - a" arbitrary: a c)
  case 0
  then have "\<not> a < m" by simp
  with 0 show ?case
    by (subst request_loop.simps)
       (auto simp add: Let_def split: prod.splits sum.splits api_reply.splits
          dest: handle_http_error_retry)
next
  case (Suc n)
  have again: "\<exists>outcome. fst (request_loop E m (Suc a) c') = Some outcome" if "a < m" for c'
    using Suc.hyps(1) [of "Suc a" c'] Suc.hyps(2) that by simp
  from Suc.prems show ?case
    by (subst request_loop.simps)
       (auto simp add: Let_def split: prod.splits sum.splits api_reply.splits
          dest: handle_http_error_retry intro: again)
qed

lemma request_loop_api_requests:
  "api_requests (snd (request_loop E m a c)) \<le> api_requests c + (Suc m - a)"
proof (induction "Suc m - a" arbitrary: a c)
  case 0
  then have "m < a" by simp
  then show ?case by (simp add: request_loop_exit)
next
  case (Suc n)
  then have le: "a \<le> m" by simp
  have again: "api_requests (snd (request_loop E m (Suc a) c')) \<le> api_requests c' + (m - a)" for c'
    using Suc.hyps(1) [of "Suc a" c'] Suc.hyps(2) by simp
  have hh: "api_requests c3 = api_requests c2"
    if "handle_http_error st data rsn a m c2 = (r, c3)" for st data rsn c2 r c3
    using that by (auto simp add: handle_http_error_def api_requests_def split: sum.splits if_splits)
  have gt: "api_requests c1 = api_requests c" if "async_get_token E c = (r, c1)" for r c1
    using async_get_token_api_requests [of E c] that by simp
  from le show ?case
    apply (subst request_loop.simps)
    apply (simp add: Let_def split: prod.splits sum.splits api_reply.splits)
    apply (intro allI impI conjI)
    apply (auto dest!: gt hh)
    subgoal for c1 tok r c3
      using again [of "emit (Sleep (1 / 2)) c3"] by simp
    done
qed


lemma request_loop_token_error:
  assumes "a \<le> m" and "async_get_token E c = (Inl err, c1)"
  shows "request_loop E m a c = (Some (Inl err), c1)"
  using assms by (subst request_loop.simps) simp


subsection \<open>The token manager\<close>

text \<open>
  C2, as the code has it. \<open>_async_get_token\<close> sends a request to the token endpoint
  exactly when the token slot is empty (\<open>None\<close>, or any other falsy value) or the time
  read is strictly later than the stored expiry minus 60 seconds. Otherwise it returns
  the stored token, and the state changes by the reading of the clock alone: no
  request is sent, and the token and its expiry stay as they were.
\<close>

theorem async_get_token_refresh:
  "token_requests (snd (async_get_token E c)) =
     token_requests c +
       (if \<not> truthy (token c) \<or> token_expiry c - 60 < clock E (clock_reads c) then 1 else 0)
   \<and> (truthy (token c) \<and> clock E (clock_reads c) \<le> token_expiry c - 60 \<longrightarrow>
        async_get_token E c = (Inr (token c), emit Clock_read c))"
  by (simp add: async_get_token_def Let_def split: sum.splits)

theorem async_get_token_refresh_witness:
  "async_get_token (sample_env 1000 [] []) held_client =
     (Inr (JStr ''testtoken''), emit Clock_read held_client)
   \<and> token_requests (snd (async_get_token (sample_env 1000 [token_ok] []) new_client)) = 1"
  using async_get_token_refresh [of "sample_env 1000 [] []" held_client]
        async_get_token_refresh [of "sample_env 1000 [token_ok] []" new_client]
  by (simp add: held_client_def new_client_def sample_env_def token_requests_def clock_reads_def)

text \<open>
  C2 as stated asks for a refresh as soon as \<open>now >= expiry - 60\<close>. At
  \<open>now = expiry - 60\<close> exactly (expiry 1060, time 1000) a token is held, the stated
  condition holds, and the code returns the stored token without a token request.
\<close>

theorem async_get_token_boundary:
  "token boundary_client \<noteq> JNull
   \<and> clock (sample_env 1000 [] []) (clock_reads boundary_client)
        \<ge> token_expiry boundary_client - 60
   \<and> async_get_token (sample_env 1000 [] []) boundary_client =
       (Inr (JStr ''testtoken''), boundary_client\<lparr>trace := [Clock_read]\<rparr>)
   \<and> token_requests (boundary_client\<lparr>trace := [Clock_read]\<rparr>) = 0"
  by (simp add: async_get_token_def Let_def boundary_client_def sample_env_def emit_def
      token_requests_def clock_reads_def)

lemma async_get_token_classification:
  assumes due: "\<not> truthy (token c) \<or> token_expiry c - 60 < clock E (clock_reads c)"
  shows "(token_endpoint E (token_requests c) = Token_raises (ClientResponseError 401 message) \<longrightarrow>
            fst (async_get_token E c) =
              Inl (NSWFuelApiClientAuthError (text_arg ''Invalid NSW Fuel Check API credentials'')))
       \<and> (token_endpoint E (token_requests c) = Token_raises (ClientResponseError st message)
            \<and> st \<noteq> 401 \<longrightarrow>
            fst (async_get_token E c) =
              Inl (NSWFuelApiClientError
                     [Str [Lit ''Token request failed with status '', Num st, Lit '': '',
                           Lit message]]))
       \<and> (token_endpoint E (token_requests c) = Token_body None \<longrightarrow>
            fst (async_get_token E c) =
              Inl (NSWFuelApiClientError
                     [Str [Lit ''Unexpected error fetching token: '',
                           Of (NSWFuelApiClientError
                                 (text_arg ''Failed to parse token response JSON''))]]))
       \<and> (token_endpoint E (token_requests c) = Token_body (Some (JObj kvs))
            \<and> map_of kvs ''access_token'' = None \<longrightarrow>
            fst (async_get_token E c) =
              Inl (NSWFuelApiClientError
                     (text_arg ''No access token in NSW Fuel Check token response'')))
       \<and> (token_endpoint E (token_requests c) = Token_body (Some (JObj kvs))
            \<and> map_of kvs ''access_token'' = Some t \<and> truthy t
            \<and> (map_of kvs ''expires_in'' = None \<and> n = 3600
                 \<or> map_of kvs ''expires_in'' = Some (JInt n)) \<longrightarrow>
            async_get_token E c =
              (Inr t, (emit Token_request (emit Clock_read c))
                        \<lparr>token := t, token_expiry := clock E (clock_reads c) + real_of_int n\<rparr>))"
  using due
  by (auto simp add: async_get_token_def Let_def token_exchange_def token_handler_def py_get_def
      HTTP_UNAUTHORIZED_def)

text \<open>
  C9. The failures the claim lists are classified as it says when the token endpoint
  answers with an error status, with a body that is not JSON, or with a JSON object
  (\<open>async_get_token_classification\<close>). The claim also covers every body that decodes
  but has no \<open>access_token\<close>, and a body that decodes to anything but an object is one:
  \<open>result.get\<close> stands after the \<open>try\<close>, so the \<open>AttributeError\<close> it raises passes no
  \<open>except\<close> clause and reaches the caller as it is, where the docstring promises
  \<open>NSWFuelApiClientError\<close>. The concrete run is a token endpoint that answers \<open>[]\<close>.
\<close>

theorem token_body_not_object:
  assumes "\<not> truthy (token c) \<or> token_expiry c - 60 < clock E (clock_reads c)"
      and "token_endpoint E (token_requests c) = Token_body (Some body)"
      and "\<forall>kvs. body \<noteq> JObj kvs"
  shows "async_get_token E c = (Inl AttributeError, emit Token_request (emit Clock_read c))"
  using assms
  by (cases body) (simp_all add: async_get_token_def Let_def token_exchange_def py_get_def)

theorem token_body_not_object_witness:
  "async_get_token (sample_env 1000 [Token_body (Some (JArr []))] []) new_client =
     (Inl AttributeError, \<lparr>token = JNull, token_expiry = 0, trace = [Clock_read, Token_request]\<rparr>)
   \<and> \<not> is_client_error AttributeError"
  using token_body_not_object
          [of new_client "sample_env 1000 [Token_body (Some (JArr []))] []" "JArr []"]
  by (simp add: new_client_def sample_env_def script_def token_requests_def emit_def)

subsection \<open>Deserialization\<close>

text \<open>
  C3, as the code has it. For a price object whose \<open>lastupdated\<close> is a string that
  neither format parses, \<open>Price.deserialize\<close> raises nothing on account of that field:
  its outcome is that of the remaining fields (the station code, \<open>fueltype\<close>, \<open>price\<close>),
  and the \<open>Price\<close> they give has \<open>last_updated\<close> null. When the field is absent the
  subscript raises \<open>KeyError\<close>, and when it is not a string \<open>strptime\<close> raises
  \<open>TypeError\<close>; only \<open>ValueError\<close> is suppressed.
\<close>

theorem Price_deserialize_lastupdated:
  "(map_of kvs ''lastupdated'' = Some (JStr s)
      \<and> strptime L s ''%d/%m/%Y %H:%M:%S'' = None
      \<and> strptime L s ''%Y-%m-%d %H:%M:%S'' = None \<longrightarrow>
    Price_deserialize L (JObj kvs) =
      bind (Price_station_code L (JObj kvs))
        (\<lambda>code. bind (getitem (JObj kvs) ''fueltype'')
        (\<lambda>ft. bind (getitem (JObj kvs) ''price'')
        (\<lambda>pr. Inr \<lparr>fuel_type = ft, price = pr, last_updated = None,
                    price_unit = (case map_of kvs ''priceunit'' of None \<Rightarrow> JNull | Some u \<Rightarrow> u),
                    station_code = code\<rparr>))))
   \<and> (map_of kvs ''lastupdated'' = None \<longrightarrow>
        Price_deserialize L (JObj kvs) = Inl (KeyError ''lastupdated''))
   \<and> (map_of kvs ''lastupdated'' = Some v \<and> (\<forall>t. v \<noteq> JStr t) \<longrightarrow>
        Price_deserialize L (JObj kvs) = Inl TypeError)"
  by (cases v) (simp_all add: Price_deserialize_def try_strptime_def py_get_def)

theorem Price_deserialize_lastupdated_witness:
  "strptime sample_lib ''yesterday'' ''%d/%m/%Y %H:%M:%S'' = None
   \<and> strptime sample_lib ''yesterday'' ''%Y-%m-%d %H:%M:%S'' = None
   \<and> Price_deserialize sample_lib
        (JObj [(''fueltype'', JStr ''E10''), (''price'', JFloat (Finite (1469 / 10))),
               (''lastupdated'', JStr ''yesterday'')]) =
       Inr \<lparr>fuel_type = JStr ''E10'', price = JFloat (Finite (1469 / 10)), last_updated = None,
            price_unit = JNull, station_code = None\<rparr>
   \<and> Price_deserialize sample_lib
        (JObj [(''fueltype'', JStr ''E10''), (''price'', JFloat (Finite (1469 / 10))),
               (''lastupdated'', JNull)]) = Inl TypeError"
  using Price_deserialize_lastupdated
          [of "[(''fueltype'', JStr ''E10''), (''price'', JFloat (Finite (1469 / 10))),
                (''lastupdated'', JStr ''yesterday'')]" "''yesterday''" sample_lib JNull]
        Price_deserialize_lastupdated
          [of "[(''fueltype'', JStr ''E10''), (''price'', JFloat (Finite (1469 / 10))),
                (''lastupdated'', JNull)]" "''yesterday''" sample_lib JNull]
  by (simp add: sample_defs Price_station_code_def)

text \<open>
  C3 as stated includes the absent field. The first price of the station test without
  its \<open>lastupdated\<close> does not deserialize: the subscript raises \<open>KeyError\<close>.
\<close>

theorem Price_deserialize_absent_lastupdated:
  "Price_deserialize sample_lib
     (JObj [(''fueltype'', JStr ''E10''), (''price'', JFloat (Finite (1469 / 10)))]) =
   Inl (KeyError ''lastupdated'')"
  by (simp add: Price_deserialize_def try_strptime_def)



subsection \<open>The request pipeline\<close>








lemma py_int_raises_kinds:
  "py_int L v = Inl err \<Longrightarrow> err \<in> {TypeError, ValueError, OverflowError}"
proof (cases v)
  case (JFloat f)
  assume "py_int L v = Inl err"
  with JFloat show ?thesis by (cases f) auto
qed (auto split: option.splits)

lemma async_get_token_raises:
  assumes "async_get_token E c = (Inl err, c')"
  shows "is_client_error err \<or> err \<in> {AttributeError, TypeError, ValueError, OverflowError}"
proof -
  have handler: "is_client_error (token_handler e)" for e
    by (cases e) (simp_all add: token_handler_def)
  have get: "e = AttributeError" if "py_get v k = Inl e" for v k e
    using that by (cases v) (simp_all add: py_get_def)
  have expires: "e \<in> {AttributeError, TypeError, ValueError, OverflowError}"
    if "bind (py_get_default v ''expires_in'' (JInt 3600)) (py_int E) = Inl e" for v e
    using that by (cases v) (auto dest: py_int_raises_kinds)
  from assms show ?thesis
    by (auto simp add: async_get_token_def Let_def handler split: if_splits sum.splits
        dest: get expires)
qed

lemma async_request_attempts:
  "api_requests (snd (async_request E c)) \<le> api_requests c + 2"
proof -
  obtain outcome where "fst (request_loop E 1 0 c) = Some outcome"
    using request_loop_returns_or_raises [of 0 1 E c] by auto
  then have "snd (async_request E c) = snd (request_loop E 1 0 c)"
    by (cases "request_loop E 1 0 c") (simp add: async_request_def)
  with request_loop_api_requests [of E 1 0 c] show ?thesis by simp
qed

lemma request_handler_is_client_error: "is_client_error (request_handler e)"
  by (simp add: request_handler_def)

lemma request_loop_raises:
  "fst (request_loop E m a c) = Some (Inl err) \<Longrightarrow>
     is_client_error err \<or> err \<in> {AttributeError, TypeError, ValueError, OverflowError}"
proof (induction "Suc m - a" arbitrary: a c)
  case 0
  then have "m < a" by simp
  with 0 show ?case by (simp add: request_loop_exit)
next
  case (Suc n)
  then have le: "a \<le> m" by simp
  have again: "is_client_error err \<or> err \<in> {AttributeError, TypeError, ValueError, OverflowError}"
    if "fst (request_loop E m (Suc a) c') = Some (Inl err)" for c'
    using Suc.hyps(1) [of "Suc a" c'] Suc.hyps(2) that by simp
  from Suc.prems le show ?case
    apply (subst (asm) request_loop.simps)
    apply (simp add: Let_def request_handler_is_client_error
        split: prod.splits sum.splits api_reply.splits if_splits)
      apply (auto simp add: request_handler_is_client_error dest: async_get_token_raises again)
    done
qed

lemma async_request_raises:
  assumes "async_request E c = (Inl err, c')"
  shows "is_client_error err \<or> err \<in> {AttributeError, TypeError, ValueError, OverflowError}"
proof (cases "request_loop E 1 0 c")
  case (Pair res c1)
  with assms request_loop_raises [of E 1 0 c err] show ?thesis
    by (cases res) (auto simp add: async_request_def text_arg_def)
qed

text \<open>
  C7. Two parts of the claim hold for every run: the loop never runs out, so the raise
  after it is never reached (\<open>request_loop_returns_or_raises\<close>), and a call sends at
  most two data requests (\<open>async_request_attempts\<close>). The third part does not: what
  the loop raises is one of the three error kinds or one of four built-in errors
  (\<open>async_request_raises\<close>), and the built-in ones do occur. The token is fetched
  inside the loop but before the \<open>try\<close>, so whatever \<open>_async_get_token\<close> raises leaves
  \<open>_async_request\<close> unchanged; and \<open>_async_get_token\<close> reads \<open>access_token\<close> and
  \<open>expires_in\<close> after its own \<open>try\<close>. The concrete run is a token reply whose
  \<open>expires_in\<close> is null: \<open>int(None)\<close> raises \<open>TypeError\<close>.
\<close>

theorem token_errors_escape:
  assumes "async_get_token E c = (Inl err, c1)"
  shows "async_request E c = (Inl err, c1)"
  using assms by (simp add: async_request_def request_loop_token_error)

theorem token_errors_escape_witness:
  "async_request
     (sample_env 1000
        [Token_body (Some (JObj [(''access_token'', JStr ''abc''), (''expires_in'', JNull)]))]
        [http 200 ''OK'' (JObj [])])
     new_client =
   (Inl TypeError, \<lparr>token = JNull, token_expiry = 0, trace = [Clock_read, Token_request]\<rparr>)
   \<and> \<not> is_client_error TypeError"
proof -
  have "async_get_token
     (sample_env 1000
        [Token_body (Some (JObj [(''access_token'', JStr ''abc''), (''expires_in'', JNull)]))]
        [http 200 ''OK'' (JObj [])])
     new_client =
   (Inl TypeError, \<lparr>token = JNull, token_expiry = 0, trace = [Clock_read, Token_request]\<rparr>)"
    by (simp add: run_defs)
  from token_errors_escape [OF this] show ?thesis by simp
qed

subsection \<open>The operations\<close>

lemma sample_request:
  assumes "extract_error_details body = Inr d"
  shows "async_request (sample_env 1000 [token_ok] [http 200 ''OK'' body]) new_client =
           (Inr body, emit (Api_request (JStr ''testtoken'')) after_token)"
  using assms
  by (simp add: async_request_def request_loop.simps run_defs after_token_def
      del: extract_error_details_def)

lemma join_spec_simps [simp]:
  "join_spec L stations [] = []"
  "join_spec L stations (e # es) =
     (case Price_deserialize L e of
        Inl err \<Rightarrow> join_spec L stations es
      | Inr p \<Rightarrow>
          (case station_code p of
             None \<Rightarrow> join_spec L stations es
           | Some k \<Rightarrow>
               (case stations k of
                  None \<Rightarrow> join_spec L stations es
                | Some st \<Rightarrow> StationPrice p st # join_spec L stations es)))"
  by (simp_all add: join_spec_def List.map_filter_simps split: sum.splits option.splits)

lemma getitem_raises: "getitem v k = Inl err \<Longrightarrow> is_skipped err"
  by (cases v) (auto split: option.splits)










lemma Station_deserialize_station_json [simp]:
  "Station_deserialize radius_env (station_json k n) = Inr (station_of k n)"
  by (simp add: Station_deserialize_def station_json_def station_items_def station_of_def
      py_get_def py_or_def DEFAULT_STATE_def)

lemma strptime_day_first: "strptime radius_env ''2018-06-02 00:46:31'' ''%d/%m/%Y %H:%M:%S'' = None"
  by (simp add: radius_env_def sample_defs)

lemma strptime_year_first:
  "strptime radius_env ''2018-06-02 00:46:31'' ''%Y-%m-%d %H:%M:%S'' =
     Some (Datetime 2018 6 2 0 46 31)"
  by (simp add: radius_env_def sample_defs)

lemma Price_deserialize_price_json [simp]:
  "Price_deserialize radius_env (price_json k p) = Inr (price_of k p)"
  by (simp add: Price_deserialize_def try_strptime_def Price_station_code_def price_json_def
      price_of_def py_get_def strptime_day_first strptime_year_first)

lemma Price_deserialize_malformed [simp]:
  "Price_deserialize radius_env (JObj [(''stationcode'', JInt 679)]) = Inl (KeyError ''lastupdated'')"
  by (simp add: Price_deserialize_def try_strptime_def)






lemma request_errors_wrapped:
  assumes "async_request E c = (Inl err, c')"
  shows "\<exists>e. fst (get_fuel_prices E c) = Inl e \<and> is_client_error e"
    and "\<exists>e. fst (get_fuel_prices_for_station E station c) = Inl e \<and> is_client_error e"
    and "\<exists>e. fst (get_fuel_prices_within_radius E lat lon c) = Inl e \<and> is_client_error e"
    and "\<exists>e. fst (get_reference_data E c) = Inl e \<and> is_client_error e"
    and "is_client_error err \<Longrightarrow> fst (get_fuel_prices E c) = Inl err"
    and "is_client_error err \<Longrightarrow> fst (get_fuel_prices_for_station E station c) = Inl err"
    and "is_client_error err \<Longrightarrow> fst (get_fuel_prices_within_radius E lat lon c) = Inl err"
    and "is_client_error err \<Longrightarrow> fst (get_reference_data E c) = Inl err"
  using assms
  by (simp_all add: get_fuel_prices_def get_fuel_prices_for_station_def
      get_fuel_prices_within_radius_def get_reference_data_def)

text \<open>
  C1. An operation guards the call of \<open>_async_request\<close> and nothing after it. What the
  request raises is wrapped, or raised again unchanged when it is one of the three error
  kinds (\<open>request_errors_wrapped\<close>), as the claim says. But once the
  response has passed the shape checks, the outcome of the operation is the outcome of
  the deserialization, its exceptions included and unwrapped: a \<open>KeyError\<close>,
  \<open>TypeError\<close> or \<open>ValueError\<close> raised there reaches the caller as it is, where the
  docstrings promise \<open>NSWFuelApiClientError\<close> for data validation errors. The concrete
  runs are a station without \<open>brand\<close>, a price without \<open>lastupdated\<close>, a station
  without \<open>code\<close>, and reference data without \<open>brands\<close>.
\<close>

theorem deserialization_errors_escape:
  assumes "async_request E c = (Inr (JObj kvs), c')"
  shows "(''prices'' \<in> fst ` set kvs \<and> ''stations'' \<in> fst ` set kvs \<longrightarrow>
            get_fuel_prices E c = (GetFuelPricesResponse_deserialize E (JObj kvs), c'))
       \<and> (\<forall>ps. map_of kvs ''prices'' = Some (JArr ps) \<and> ps \<noteq> [] \<longrightarrow>
            get_fuel_prices_for_station E station c = (map_exn (Price_deserialize E) ps, c'))
       \<and> (\<forall>ss ps. map_of kvs ''stations'' = Some (JArr ss) \<and> ss \<noteq> []
              \<and> map_of kvs ''prices'' = Some (JArr ps) \<and> ps \<noteq> [] \<longrightarrow>
            get_fuel_prices_within_radius E lat lon c =
              (bind (build_stations E ss Map.empty) (\<lambda>stations. join_prices E stations ps []), c'))
       \<and> (kvs \<noteq> [] \<longrightarrow>
            get_reference_data E c = (GetReferenceDataResponse_deserialize E (JObj kvs), c'))"
proof -
  have in_keys: "k \<in> fst ` set kvs" if "map_of kvs k = Some v" for k v
    using that by (auto dest!: map_of_SomeD intro: rev_image_eqI)
  show ?thesis
    using assms
    by (auto simp add: get_fuel_prices_def get_fuel_prices_for_station_def
        get_fuel_prices_within_radius_def get_reference_data_def py_get_def
        dest: in_keys)
qed

theorem deserialization_errors_escape_witness:
  "get_fuel_prices
     (sample_env 1000 [token_ok]
        [http 200 ''OK'' (JObj [(''prices'', JArr []), (''stations'', JArr [JObj []])])])
     new_client =
     (Inl (KeyError ''brand''), emit (Api_request (JStr ''testtoken'')) after_token)
   \<and> get_fuel_prices_for_station
       (sample_env 1000 [token_ok]
          [http 200 ''OK''
             (JObj [(''prices'', JArr [JObj [(''fueltype'', JStr ''E10''),
                                             (''price'', JFloat (Finite (1469 / 10)))]])])])
       ''1000'' new_client =
     (Inl (KeyError ''lastupdated''), emit (Api_request (JStr ''testtoken'')) after_token)
   \<and> get_fuel_prices_within_radius
       (sample_env 1000 [token_ok]
          [http 200 ''OK'' (JObj [(''stations'', JArr [JObj []]), (''prices'', JArr [JObj []])])])
       (- 33) 151 new_client =
     (Inl (KeyError ''code''), emit (Api_request (JStr ''testtoken'')) after_token)
   \<and> get_reference_data
       (sample_env 1000 [token_ok]
          [http 200 ''OK'' (JObj [(''stations'', JObj [(''items'', JArr [])])])])
       new_client =
     (Inl (KeyError ''brands''), emit (Api_request (JStr ''testtoken'')) after_token)"
proof -
  have "extract_error_details (JObj [(''prices'', JArr []), (''stations'', JArr [JObj []])]) =
          Inr JNull"
    and "extract_error_details
           (JObj [(''prices'', JArr [JObj [(''fueltype'', JStr ''E10''),
                                           (''price'', JFloat (Finite (1469 / 10)))]])]) = Inr JNull"
    and "extract_error_details
           (JObj [(''stations'', JArr [JObj []]), (''prices'', JArr [JObj []])]) = Inr JNull"
    and "extract_error_details (JObj [(''stations'', JObj [(''items'', JArr [])])]) = Inr JNull"
    by (simp_all add: extract_error_details_def)
  note requests = this [THEN sample_request]
  from deserialization_errors_escape [OF requests(1)]
       deserialization_errors_escape [OF requests(2), of "''1000''"]
       deserialization_errors_escape [OF requests(3), of _ "- 33" 151]
       deserialization_errors_escape [OF requests(4)]
  show ?thesis
    by (simp add: GetFuelPricesResponse_deserialize_def Station_deserialize_def py_get_def
        Price_deserialize_def try_strptime_def GetReferenceDataResponse_deserialize_def
        items_of_def)
qed

end
